theory Spec2Isabelle
  imports Complex_Main
begin

section \<open>chipmod.py: two-terminal chip packages\<close>

text \<open>
  A shallow embedding of \<^verbatim>\<open>scripts/chipmod.py\<close>.

  All lengths of the script are Python floats holding millimetres. They are modelled
  as exact rationals (\<^typ>\<open>rat\<close>): \<open>+\<close>, \<open>-\<close>, \<open>*\<close> and \<open>/\<close> are the exact
  operations and \<^verbatim>\<open>math.ceil\<close> is \<^const>\<open>ceiling\<close>. Binary rounding of the
  floats is outside this model.
\<close>

subsection \<open>Errors\<close>

datatype error =
  KeyError string
  | IndexError
  | ParseError

subsection \<open>Package configuration\<close>

text \<open>
  The \<^verbatim>\<open>silk\<close> key of a package entry is optional: it may be missing, may hold
  \<^verbatim>\<open>None\<close>, or may hold a string.
\<close>

datatype silk_key = SilkAbsent | SilkNone | SilkStr string

text \<open>
  A package entry of \<^verbatim>\<open>config\<close>. The four dimension keys are present in every
  entry of the literal table. The \<^verbatim>\<open>name\<close> key is absent from the table;
  \<^verbatim>\<open>main\<close> stores it (\<^verbatim>\<open>conf['name'] = name\<close>), and reading it before
  that raises \<^verbatim>\<open>KeyError\<close>.
\<close>

record conf =
  pad_shape :: "rat \<times> rat"
  pitch :: rat
  chip_shape :: "rat \<times> rat"
  terminal :: rat
  silk_entry :: silk_key
  name_entry :: "string option"

definition entry :: "rat \<times> rat \<Rightarrow> rat \<Rightarrow> rat \<times> rat \<Rightarrow> rat \<Rightarrow> silk_key \<Rightarrow> conf" where
  "entry ps p cs t s =
     \<lparr>pad_shape = ps, pitch = p, chip_shape = cs, terminal = t,
      silk_entry = s, name_entry = None\<rparr>"

text \<open>The dictionary \<^verbatim>\<open>config\<close>, in the order of the literal.\<close>

definition config :: "(string \<times> conf) list" where
  "config =
    [(''0201'', entry (46/100, 42/100) (66/100) (6/10, 3/10) (15/100) SilkNone),
     (''0402'', entry (62/100, 62/100) (90/100) (1, 50/100) (30/100) SilkNone),
     (''0603'', entry (95/100, 1) (160/100) (160/100, 80/100) (35/100) SilkAbsent),
     (''0603-LED'', entry (95/100, 1) (160/100) (160/100, 80/100) (25/100)
        (SilkStr ''triangle'')),
     (''0805'', entry (115/100, 145/100) (180/100) (2, 125/100) (50/100) SilkAbsent),
     (''1206'', entry (115/100, 180/100) 3 (320/100, 160/100) (60/100) SilkAbsent),
     (''0402-L'', entry (52/100, 52/100) (80/100) (1, 50/100) (30/100) SilkNone),
     (''0603-L'', entry (75/100, 90/100) (140/100) (160/100, 80/100) (35/100)
        SilkAbsent)]"

subsection \<open>Other constants\<close>

definition ctyd_gap :: rat where "ctyd_gap = 25/100"
definition ctyd_grid :: rat where "ctyd_grid = 5/100"
definition ctyd_width :: rat where "ctyd_width = 1/100"
definition silk_pad_igap :: rat where "silk_pad_igap = 2/10"
definition silk_pad_egap :: rat where "silk_pad_egap = 2/10"
definition silk_width :: rat where "silk_width = 15/100"
definition fab_width :: rat where "fab_width = 1/100"
definition font_size :: "rat \<times> rat" where "font_size = (1, 1)"
definition font_thickness :: rat where "font_thickness = 15/100"
definition font_halfheight :: rat where "font_halfheight = 7/10"

subsection \<open>Drawing primitives of \<^verbatim>\<open>kicad_mod\<close>\<close>

text \<open>
  Modelled from the spec: the module \<^verbatim>\<open>kicad_mod\<close> (\<^verbatim>\<open>fp_line\<close>,
  \<^verbatim>\<open>fp_text\<close>, \<^verbatim>\<open>pad\<close>, \<^verbatim>\<open>draw_square\<close>) is not part of the sources at hand.
  The spec describes a drawing primitive as an opaque, externally constructed object
  that the script only parameterises: a line segment (two endpoints, layer, stroke
  width), a text (position, angle, content, layer, font size, font thickness) or a pad.
  Each primitive is therefore the record of the arguments of the call that builds it, in
  the order in which the script passes them.
\<close>

datatype prim =
  FpLine "rat \<times> rat" "rat \<times> rat" string rat
  | FpText string string "rat \<times> rat \<times> rat" string "rat \<times> rat" rat
  | Pad int string string "rat \<times> rat" "rat \<times> rat" "string list"

definition fp_line :: "rat \<times> rat \<Rightarrow> rat \<times> rat \<Rightarrow> string \<Rightarrow> rat \<Rightarrow> prim" where
  "fp_line start end' layer width = FpLine start end' layer width"

definition fp_text ::
  "string \<Rightarrow> string \<Rightarrow> rat \<times> rat \<times> rat \<Rightarrow> string \<Rightarrow> rat \<times> rat \<Rightarrow> rat \<Rightarrow> prim" where
  "fp_text texttype txt pos layer size' thickness =
     FpText texttype txt pos layer size' thickness"

definition pad ::
  "int \<Rightarrow> string \<Rightarrow> string \<Rightarrow> rat \<times> rat \<Rightarrow> rat \<times> rat \<Rightarrow> string list \<Rightarrow> prim" where
  "pad num padtype shape pos size' layers = Pad num padtype shape pos size' layers"

text \<open>
  Modelled from the spec: \<^verbatim>\<open>kicad_mod.draw_square\<close> is not part of the sources at
  hand. The script calls it with a width, a height, a centre, a layer and a stroke
  width, and receives four corners \<^verbatim>\<open>nw, ne, se, sw\<close> and a list of primitives.
  The spec calls the result a centered rectangle "derived from four corner points of
  lines" and fixes, for a chip of shape (1.00, 0.50) at the origin, a span of \<open>\<plusminus>0.50\<close>
  in X and \<open>\<plusminus>0.25\<close> in Y with the west corner at \<open>x = -0.50\<close>. The model puts the
  corners at half the width and half the height from the centre, north at the smaller
  Y (the Y axis of the layout tool points down), and draws the four sides corner to
  corner, starting at \<^verbatim>\<open>nw\<close>.
\<close>

definition draw_square ::
  "rat \<Rightarrow> rat \<Rightarrow> rat \<times> rat \<Rightarrow> string \<Rightarrow> rat \<Rightarrow>
     (rat \<times> rat) \<times> (rat \<times> rat) \<times> (rat \<times> rat) \<times> (rat \<times> rat) \<times> prim list" where
  "draw_square width height centre layer thickness =
     (let ne = (width / 2 + fst centre, - height / 2 + snd centre);
          nw = (- width / 2 + fst centre, - height / 2 + snd centre);
          se = (width / 2 + fst centre, height / 2 + snd centre);
          sw = (- width / 2 + fst centre, height / 2 + snd centre)
      in (nw, ne, se, sw,
          [fp_line nw ne layer thickness,
           fp_line ne se layer thickness,
           fp_line se sw layer thickness,
           fp_line sw nw layer thickness]))"

subsection \<open>The geometry functions\<close>

text \<open>\<^verbatim>\<open>conf['name']\<close>: a missing key raises \<^verbatim>\<open>KeyError\<close>.\<close>

definition conf_name :: "conf \<Rightarrow> error + string" where
  "conf_name c = (case name_entry c of None \<Rightarrow> Inl (KeyError ''name'') | Some n \<Rightarrow> Inr n)"

text \<open>\<^verbatim>\<open>refs(conf)\<close>: the reference and value labels.\<close>

definition refs :: "conf \<Rightarrow> error + prim list" where
  "refs c =
     (let x = pitch c / 2 + fst (pad_shape c) / 2 + ctyd_gap + font_halfheight;
          out = [fp_text ''reference'' ''REF**'' (- x, 0, 90) ''F.Fab''
                   font_size font_thickness]
      in case conf_name c of
           Inl e \<Rightarrow> Inl e
         | Inr n \<Rightarrow>
             Inr (out @ [fp_text ''value'' n (x, 0, 90) ''F.Fab''
                           font_size font_thickness]))"

text \<open>\<^verbatim>\<open>fab(conf)\<close>: the chip on the fabrication layer.\<close>

definition fab :: "conf \<Rightarrow> prim list" where
  "fab c =
     (let (w, h) = chip_shape c;
          t = terminal c;
          (nw, ne, se, sw, sq) = draw_square w h (0, 0) ''F.Fab'' fab_width
      in sq @
         [fp_line (fst nw + t, - h / 2) (fst nw + t, h / 2) ''F.Fab'' fab_width,
          fp_line (fst ne - t, - h / 2) (fst ne - t, h / 2) ''F.Fab'' fab_width])"

definition internal_silk :: "conf \<Rightarrow> prim list" where
  "internal_silk c =
     (let w = pitch c - fst (pad_shape c) - 2 * silk_pad_igap;
          h = snd (chip_shape c) - silk_width;
          (nw, ne, se, sw, sq) = draw_square w h (0, 0) ''F.SilkS'' silk_width
      in sq)"

definition external_silk :: "conf \<Rightarrow> prim list" where
  "external_silk c = []"

definition triangle_silk :: "conf \<Rightarrow> prim list" where
  "triangle_silk c =
     (let w = pitch c - fst (pad_shape c) - 2 * silk_pad_igap;
          h = snd (chip_shape c) - silk_width
      in [fp_line (- w / 2, 0) (w / 2, - h / 2) ''F.SilkS'' silk_width,
          fp_line (- w / 2, 0) (w / 2, h / 2) ''F.SilkS'' silk_width,
          fp_line (w / 2, - h / 2) (w / 2, h / 2) ''F.SilkS'' silk_width])"

definition pin1_silk :: "conf \<Rightarrow> prim list" where
  "pin1_silk c = []"

text \<open>
  \<^verbatim>\<open>conf.get('silk', 'internal')\<close>: the default stands in for a missing key only;
  a stored \<^verbatim>\<open>None\<close> is returned as it is.
\<close>

definition conf_get_silk :: "conf \<Rightarrow> string option" where
  "conf_get_silk c =
     (case silk_entry c of
        SilkAbsent \<Rightarrow> Some ''internal''
      | SilkNone \<Rightarrow> None
      | SilkStr s \<Rightarrow> Some s)"

definition silk :: "conf \<Rightarrow> prim list" where
  "silk c =
     (let s = conf_get_silk c
      in if s = Some ''internal'' then internal_silk c
         else if s = Some ''external'' then external_silk c
         else if s = Some ''triangle'' then triangle_silk c
         else if s = Some ''pin1'' then pin1_silk c
         else [])"

text \<open>
  The width and height that \<^verbatim>\<open>ctyd(conf)\<close> computes before and after it puts them
  on the grid (its local variables \<^verbatim>\<open>width\<close> and \<^verbatim>\<open>height\<close>).
\<close>

definition ctyd_raw :: "conf \<Rightarrow> rat \<times> rat" where
  "ctyd_raw c =
     (fst (pad_shape c) + pitch c + 2 * ctyd_gap, snd (pad_shape c) + 2 * ctyd_gap)"

definition ctyd_size :: "conf \<Rightarrow> rat \<times> rat" where
  "ctyd_size c =
     (let (width, height) = ctyd_raw c;
          grid = 2 * ctyd_grid
      in (grid * of_int (ceiling (width / (2 * ctyd_grid))),
          grid * of_int (ceiling (height / (2 * ctyd_grid)))))"

definition ctyd :: "conf \<Rightarrow> prim list" where
  "ctyd c =
     (let (width, height) = ctyd_size c;
          (nw, ne, se, sw, sq) = draw_square width height (0, 0) ''F.CrtYd'' ctyd_width
      in sq)"

definition pads :: "conf \<Rightarrow> prim list" where
  "pads c =
     (let x = pitch c / 2;
          layers = [''F.Cu'', ''F.Mask'', ''F.Paste'']
      in [pad 1 ''smd'' ''rect'' (- x, 0) (pad_shape c) layers,
          pad 2 ''smd'' ''rect'' (x, 0) (pad_shape c) layers])"

subsection \<open>The document\<close>

text \<open>
  The list that \<^verbatim>\<open>footprint\<close> builds: strings, tuples of strings, and the
  primitives returned by \<^verbatim>\<open>kicad_mod\<close>.
\<close>

datatype sexp = Str string | Lst "sexp list" | Prim prim

text \<open>\<^verbatim>\<open>int(x)\<close> on a float truncates towards zero.\<close>

definition py_int :: "rat \<Rightarrow> int" where
  "py_int x = (if 0 \<le> x then \<lfloor>x\<rfloor> else \<lceil>x\<rceil>)"

text \<open>\<^verbatim>\<open>format(i, 'X')\<close>: upper-case hexadecimal, with a sign for a negative number.\<close>

definition hex_digit :: "nat \<Rightarrow> char" where
  "hex_digit d = ''0123456789ABCDEF'' ! (d mod 16)"

fun hex_nat :: "nat \<Rightarrow> string" where
  "hex_nat n = (if n < 16 then [hex_digit n] else hex_nat (n div 16) @ [hex_digit (n mod 16)])"

declare hex_nat.simps [simp del]

definition format_X :: "int \<Rightarrow> string" where
  "format_X i = (if i < 0 then CHR ''-'' # hex_nat (nat (- i)) else hex_nat (nat i))"

text \<open>
  The list \<^verbatim>\<open>sexp\<close> of \<^verbatim>\<open>footprint(conf)\<close> at its \<^verbatim>\<open>return\<close>. The reading
  \<open>now\<close> of \<^verbatim>\<open>time.time()\<close> is an argument.
\<close>

definition footprint_sexp :: "rat \<Rightarrow> conf \<Rightarrow> error + sexp list" where
  "footprint_sexp now c =
     (let tedit = format_X (py_int now)
      in case conf_name c of
           Inl e \<Rightarrow> Inl e
         | Inr n \<Rightarrow>
             (case refs c of
                Inl e \<Rightarrow> Inl e
              | Inr r \<Rightarrow>
                  Inr ([Str ''module'', Str n, Lst [Str ''layer'', Str ''F.Cu''],
                        Lst [Str ''tedit'', Str tedit]]
                       @ map Prim r
                       @ map Prim (fab c)
                       @ map Prim (silk c)
                       @ map Prim (ctyd c)
                       @ map Prim (pads c))))"

text \<open>
  \<^verbatim>\<open>footprint(conf)\<close>. The serialiser \<^verbatim>\<open>sexp.sexp_generate\<close> is not part of the
  sources at hand; it is the argument \<open>sexp_generate\<close>, and \<open>'t\<close> is the type of the
  text it writes.
\<close>

definition footprint :: "(sexp list \<Rightarrow> 't) \<Rightarrow> rat \<Rightarrow> conf \<Rightarrow> error + 't" where
  "footprint sexp_generate now c =
     (case footprint_sexp now c of
        Inl e \<Rightarrow> Inl e
      | Inr d \<Rightarrow> Inr (sexp_generate d))"

subsection \<open>The writer\<close>

text \<open>
  \<^verbatim>\<open>n[0] != "tedit"\<close> for an element \<open>n\<close> of a parsed document. Indexing an empty
  string or an empty list raises \<^verbatim>\<open>IndexError\<close>; the first character of a string is
  a string of length one and differs from \<^verbatim>\<open>"tedit"\<close>. For a drawing element the
  answer is modelled from the spec, which describes it as a nested list tagged by its
  kind (line, text, pad): its head differs from \<^verbatim>\<open>"tedit"\<close>.
\<close>

fun head_not_tedit :: "sexp \<Rightarrow> error + bool" where
  "head_not_tedit (Str []) = Inl IndexError"
| "head_not_tedit (Str (c # cs)) = Inr True"
| "head_not_tedit (Lst []) = Inl IndexError"
| "head_not_tedit (Lst (h # t)) = Inr (h \<noteq> Str ''tedit'')"
| "head_not_tedit (Prim p) = Inr True"

text \<open>The comprehension \<^verbatim>\<open>[n for n in xs if n[0] != "tedit"]\<close>.\<close>

fun without_tedit :: "sexp list \<Rightarrow> error + sexp list" where
  "without_tedit [] = Inr []"
| "without_tedit (n # ns) =
     (case head_not_tedit n of
        Inl e \<Rightarrow> Inl e
      | Inr keep \<Rightarrow>
          (case without_tedit ns of
             Inl e \<Rightarrow> Inl e
           | Inr r \<Rightarrow> Inr (if keep then n # r else r)))"

text \<open>\<^verbatim>\<open>os.path.join(a, b)\<close> on a POSIX system, for two components.\<close>

definition os_path_join :: "string \<Rightarrow> string \<Rightarrow> string" where
  "os_path_join a b =
     (if b \<noteq> [] \<and> hd b = CHR ''/'' then b
      else if a = [] \<or> last a = CHR ''/'' then a @ b
      else a @ ''/'' @ b)"

text \<open>
  The files under the output directory: a map from a path to the text stored there.
  \<^verbatim>\<open>os.path.isfile(path)\<close> holds when the path is in the domain. The directory is
  taken to exist and to be writable, so reading and writing raise nothing.
\<close>

type_synonym 't files = "string \<rightharpoonup> 't"

text \<open>
  The body of the loop of \<^verbatim>\<open>main\<close> for one item \<^verbatim>\<open>(name, conf)\<close>. The parser
  \<^verbatim>\<open>sexp.sexp_parse\<close> is not part of the sources at hand; it is the argument
  \<open>sexp_parse\<close>, which may fail on a text. The result is the entry as the body leaves
  it (the dictionary \<^verbatim>\<open>conf\<close> is updated in place), the files, and whether the body
  wrote the file.
\<close>

definition main_body ::
  "(sexp list \<Rightarrow> 't) \<Rightarrow> ('t \<Rightarrow> error + sexp list) \<Rightarrow> string \<Rightarrow> rat \<Rightarrow> 't files \<Rightarrow>
     string \<times> conf \<Rightarrow> error + (conf \<times> 't files \<times> bool)" where
  "main_body sexp_generate sexp_parse prettypath now fs item =
     (let name = fst item;
          c = (snd item)\<lparr>name_entry := Some name\<rparr>
      in case footprint sexp_generate now c of
           Inl e \<Rightarrow> Inl e
         | Inr fp \<Rightarrow>
             (let path = os_path_join prettypath (name @ ''.kicad_mod'')
              in case fs path of
                   None \<Rightarrow> Inr (c, fs(path \<mapsto> fp), True)
                 | Some old \<Rightarrow>
                     (case sexp_parse old of
                        Inl e \<Rightarrow> Inl e
                      | Inr po \<Rightarrow>
                     (case without_tedit po of
                        Inl e \<Rightarrow> Inl e
                      | Inr old' \<Rightarrow>
                     (case sexp_parse fp of
                        Inl e \<Rightarrow> Inl e
                      | Inr pn \<Rightarrow>
                     (case without_tedit pn of
                        Inl e \<Rightarrow> Inl e
                      | Inr new' \<Rightarrow>
                          if new' = old' then Inr (c, fs, False)
                          else Inr (c, fs(path \<mapsto> fp), True)))))))"

text \<open>
  \<^verbatim>\<open>main(prettypath)\<close> over the items of a registry, in order. \<open>clock i\<close> is the
  reading of \<^verbatim>\<open>time.time()\<close> in the \<open>i\<close>-th pass of the loop. The result is the
  registry as the run leaves it, the files, and the number of files written. An error
  ends the run.
\<close>

fun main_loop ::
  "(sexp list \<Rightarrow> 't) \<Rightarrow> ('t \<Rightarrow> error + sexp list) \<Rightarrow> string \<Rightarrow> (nat \<Rightarrow> rat) \<Rightarrow> 't files \<Rightarrow>
     (string \<times> conf) list \<Rightarrow> error + ((string \<times> conf) list \<times> 't files \<times> nat)" where
  "main_loop sexp_generate sexp_parse prettypath clock fs [] = Inr ([], fs, 0)"
| "main_loop sexp_generate sexp_parse prettypath clock fs (item # items) =
     (case main_body sexp_generate sexp_parse prettypath (clock 0) fs item of
        Inl e \<Rightarrow> Inl e
      | Inr (c, fs', wrote) \<Rightarrow>
          (case main_loop sexp_generate sexp_parse prettypath (\<lambda>i. clock (Suc i)) fs' items of
             Inl e \<Rightarrow> Inl e
           | Inr (items', fs'', k) \<Rightarrow>
               Inr ((fst item, c) # items', fs'', (if wrote then 1 else 0) + k)))"

definition main ::
  "(sexp list \<Rightarrow> 't) \<Rightarrow> ('t \<Rightarrow> error + sexp list) \<Rightarrow> string \<Rightarrow> (nat \<Rightarrow> rat) \<Rightarrow> 't files \<Rightarrow>
     error + ((string \<times> conf) list \<times> 't files \<times> nat)" where
  "main sexp_generate sexp_parse prettypath clock fs =
     main_loop sexp_generate sexp_parse prettypath clock fs config"

subsection \<open>Notions used in the statements\<close>

text \<open>
  Three segments form a closed triangle when the first two leave a common point, the
  apex, and the third joins their far ends, the base.
\<close>

fun triangle_of :: "prim list \<Rightarrow> ((rat \<times> rat) \<times> (rat \<times> rat) \<times> (rat \<times> rat)) option" where
  "triangle_of [FpLine a b l1 w1, FpLine a' c l2 w2, FpLine b' c' l3 w3] =
     (if a' = a \<and> b' = b \<and> c' = c then Some (a, b, c) else None)"
| "triangle_of ps = None"

text \<open>
  A triangle points right when its apex lies to the right of both ends of its base
  (at a larger X), and left when the apex lies to their left.
\<close>

definition points_right :: "prim list \<Rightarrow> bool" where
  "points_right ps =
     (case triangle_of ps of
        Some (a, b, c) \<Rightarrow> fst b < fst a \<and> fst c < fst a
      | None \<Rightarrow> False)"

definition points_left :: "prim list \<Rightarrow> bool" where
  "points_left ps =
     (case triangle_of ps of
        Some (a, b, c) \<Rightarrow> fst a < fst b \<and> fst a < fst c
      | None \<Rightarrow> False)"

text \<open>The \<^verbatim>\<open>tedit\<close> element of a document: a list whose head is \<^verbatim>\<open>"tedit"\<close>.\<close>

fun is_tedit :: "sexp \<Rightarrow> bool" where
  "is_tedit (Lst (h # t)) = (h = Str ''tedit'')"
| "is_tedit n = False"

text \<open>The two labels that \<^verbatim>\<open>refs\<close> returns for a package whose name is \<open>n\<close>.\<close>

definition labels :: "string \<Rightarrow> conf \<Rightarrow> prim list" where
  "labels n c =
     (let x = pitch c / 2 + fst (pad_shape c) / 2 + ctyd_gap + font_halfheight
      in [FpText ''reference'' ''REF**'' (- x, 0, 90) ''F.Fab'' font_size font_thickness,
          FpText ''value'' n (x, 0, 90) ''F.Fab'' font_size font_thickness])"

text \<open>The entry of an item once \<^verbatim>\<open>main\<close> has stored the name in it.\<close>

definition named :: "string \<times> conf \<Rightarrow> conf" where
  "named item = (snd item)\<lparr>name_entry := Some (fst item)\<rparr>"

text \<open>The registry once \<^verbatim>\<open>main\<close> has stored the name in each entry.\<close>

definition named_items :: "(string \<times> conf) list \<Rightarrow> (string \<times> conf) list" where
  "named_items items = map (\<lambda>item. (fst item, named item)) items"

text \<open>The path of the file of an item.\<close>

definition item_path :: "string \<Rightarrow> string \<times> conf \<Rightarrow> string" where
  "item_path prettypath item = os_path_join prettypath (fst item @ ''.kicad_mod'')"

text \<open>
  The document of an item generated at the time \<open>now\<close>, and the same document
  without its \<^verbatim>\<open>tedit\<close> element.
\<close>

definition item_doc :: "rat \<Rightarrow> string \<times> conf \<Rightarrow> sexp list" where
  "item_doc now item =
     [Str ''module'', Str (fst item), Lst [Str ''layer'', Str ''F.Cu''],
      Lst [Str ''tedit'', Str (format_X (py_int now))]]
     @ map Prim (labels (fst item) (snd item) @ fab (snd item) @ silk (snd item)
                 @ ctyd (snd item) @ pads (snd item))"

definition stripped_doc :: "string \<times> conf \<Rightarrow> sexp list" where
  "stripped_doc item =
     [Str ''module'', Str (fst item), Lst [Str ''layer'', Str ''F.Cu'']]
     @ map Prim (labels (fst item) (snd item) @ fab (snd item) @ silk (snd item)
                 @ ctyd (snd item) @ pads (snd item))"


text \<open>
  A registry as a Python dictionary with package names for keys holds every name once.
  A package name is not empty and does not start with the path separator.
\<close>

definition registry_ok :: "(string \<times> conf) list \<Rightarrow> bool" where
  "registry_ok items \<longleftrightarrow>
     distinct (map fst items)
     \<and> list_all (\<lambda>item. fst item \<noteq> [] \<and> hd (fst item) \<noteq> CHR ''/'') items"



section \<open>Properties\<close>

subsection \<open>Arithmetic of the grid\<close>


subsection \<open>The geometry functions\<close>


text \<open>
  Claim C3. Every package gets exactly two pads, both surface-mount rectangles of size
  \<open>pad_shape\<close> on the copper, solder-mask and paste layers: pad 1 centred at
  \<open>(- pitch / 2, 0)\<close> and pad 2 at \<open>(pitch / 2, 0)\<close>. For a positive pitch pad 1 is
  the left one.
\<close>

theorem pads_two_rect_smd:
  "(let xl = - (pitch c / 2); xr = pitch c / 2 in
     pads c = [Pad 1 ''smd'' ''rect'' (xl, 0) (pad_shape c) [''F.Cu'', ''F.Mask'', ''F.Paste''],
               Pad 2 ''smd'' ''rect'' (xr, 0) (pad_shape c) [''F.Cu'', ''F.Mask'', ''F.Paste'']]
     \<and> (0 < pitch c \<longrightarrow> xl < xr))"
  by (simp add: pads_def pad_def Let_def)

theorem pads_two_rect_smd_witness:
  "0 < pitch (entry (62/100, 62/100) (90/100) (1, 50/100) (30/100) SilkNone)
   \<and> pads (entry (62/100, 62/100) (90/100) (1, 50/100) (30/100) SilkNone) =
       [Pad 1 ''smd'' ''rect'' (- (45/100), 0) (62/100, 62/100) [''F.Cu'', ''F.Mask'', ''F.Paste''],
        Pad 2 ''smd'' ''rect'' (45/100, 0) (62/100, 62/100) [''F.Cu'', ''F.Mask'', ''F.Paste'']]
   \<and> - (45/100) < (45/100 :: rat)"
  using pads_two_rect_smd [of "entry (62/100, 62/100) (90/100) (1, 50/100) (30/100) SilkNone"]
  by (simp add: entry_def Let_def)

text \<open>
  Claim C7. A package with a name gets exactly two text labels on the fabrication
  layer, at \<open>(- x, 0)\<close> and \<open>(x, 0)\<close> with \<open>x\<close> = pitch / 2 + pad width / 2 +
  courtyard clearance + font half-height, both rotated by 90 degrees: the left one is
  the reference \<^verbatim>\<open>REF**\<close>, the right one is the value and holds the package name.
\<close>

theorem refs_two_labels:
  assumes "name_entry c = Some n"
  shows "(let x = pitch c / 2 + fst (pad_shape c) / 2 + ctyd_gap + font_halfheight in
          refs c =
            Inr [FpText ''reference'' ''REF**'' (- x, 0, 90) ''F.Fab'' font_size font_thickness,
                 FpText ''value'' n (x, 0, 90) ''F.Fab'' font_size font_thickness])"
  using assms by (simp add: refs_def conf_name_def fp_text_def Let_def)

theorem refs_two_labels_witness:
  "name_entry ((entry (62/100, 62/100) (90/100) (1, 50/100) (30/100) SilkNone)
       \<lparr>name_entry := Some ''0402''\<rparr>) = Some ''0402''
   \<and> refs ((entry (62/100, 62/100) (90/100) (1, 50/100) (30/100) SilkNone)
       \<lparr>name_entry := Some ''0402''\<rparr>) =
       Inr [FpText ''reference'' ''REF**'' (- (171/100), 0, 90) ''F.Fab'' (1, 1) (15/100),
            FpText ''value'' ''0402'' (171/100, 0, 90) ''F.Fab'' (1, 1) (15/100)]"
  using refs_two_labels [of "(entry (62/100, 62/100) (90/100) (1, 50/100) (30/100) SilkNone)
       \<lparr>name_entry := Some ''0402''\<rparr>" "''0402''"]
  by (simp add: entry_def Let_def ctyd_gap_def font_halfheight_def font_size_def
      font_thickness_def)

lemma internal_silk_lines:
  "internal_silk c =
     (let w = pitch c - fst (pad_shape c) - 2 * silk_pad_igap;
          h = snd (chip_shape c) - silk_width
      in [FpLine (- w / 2, - h / 2) (w / 2, - h / 2) ''F.SilkS'' silk_width,
          FpLine (w / 2, - h / 2) (w / 2, h / 2) ''F.SilkS'' silk_width,
          FpLine (w / 2, h / 2) (- w / 2, h / 2) ''F.SilkS'' silk_width,
          FpLine (- w / 2, h / 2) (- w / 2, - h / 2) ''F.SilkS'' silk_width])"
  by (simp add: internal_silk_def draw_square_def fp_line_def Let_def)

text \<open>
  Claim C4. \<^verbatim>\<open>silk\<close> selects by the \<^verbatim>\<open>silk\<close> key. A missing key behaves as
  \<^verbatim>\<open>"internal"\<close> and gives the four segments of the internal rectangle;
  \<^verbatim>\<open>"external"\<close> and \<^verbatim>\<open>"pin1"\<close> give nothing; a stored \<^verbatim>\<open>None\<close> and
  any string that names no variant give nothing.
\<close>

theorem silk_dispatch:
  "(silk_entry c = SilkAbsent \<longrightarrow> silk c = internal_silk c)
   \<and> (silk_entry c = SilkStr ''internal'' \<longrightarrow> silk c = internal_silk c)
   \<and> (let w = pitch c - fst (pad_shape c) - 2 * silk_pad_igap;
           h = snd (chip_shape c) - silk_width
       in internal_silk c =
            [FpLine (- w / 2, - h / 2) (w / 2, - h / 2) ''F.SilkS'' silk_width,
             FpLine (w / 2, - h / 2) (w / 2, h / 2) ''F.SilkS'' silk_width,
             FpLine (w / 2, h / 2) (- w / 2, h / 2) ''F.SilkS'' silk_width,
             FpLine (- w / 2, h / 2) (- w / 2, - h / 2) ''F.SilkS'' silk_width])
   \<and> (silk_entry c = SilkStr ''external'' \<longrightarrow> silk c = [])
   \<and> (silk_entry c = SilkStr ''pin1'' \<longrightarrow> silk c = [])
   \<and> (silk_entry c = SilkNone \<longrightarrow> silk c = [])
   \<and> (silk_entry c = SilkStr s \<and> s \<noteq> ''internal'' \<and> s \<noteq> ''external''
        \<and> s \<noteq> ''triangle'' \<and> s \<noteq> ''pin1'' \<longrightarrow> silk c = [])"
proof -
  have "silk_entry c = SilkAbsent \<longrightarrow> silk c = internal_silk c"
    by (simp add: silk_def conf_get_silk_def)
  moreover have "silk_entry c = SilkStr ''internal'' \<longrightarrow> silk c = internal_silk c"
    by (simp add: silk_def conf_get_silk_def)
  moreover have "silk_entry c = SilkStr ''external'' \<longrightarrow> silk c = []"
    by (simp add: silk_def conf_get_silk_def external_silk_def)
  moreover have "silk_entry c = SilkStr ''pin1'' \<longrightarrow> silk c = []"
    by (simp add: silk_def conf_get_silk_def pin1_silk_def)
  moreover have "silk_entry c = SilkNone \<longrightarrow> silk c = []"
    by (simp add: silk_def conf_get_silk_def)
  moreover have "silk_entry c = SilkStr s \<and> s \<noteq> ''internal'' \<and> s \<noteq> ''external''
        \<and> s \<noteq> ''triangle'' \<and> s \<noteq> ''pin1'' \<longrightarrow> silk c = []"
    by (simp add: silk_def conf_get_silk_def)
  ultimately show ?thesis
    using internal_silk_lines [of c] by simp
qed

theorem silk_dispatch_witness:
  "silk (entry (95/100, 1) (160/100) (160/100, 80/100) (35/100) SilkAbsent) =
     [FpLine (- (1/8), - (13/40)) (1/8, - (13/40)) ''F.SilkS'' (15/100),
      FpLine (1/8, - (13/40)) (1/8, 13/40) ''F.SilkS'' (15/100),
      FpLine (1/8, 13/40) (- (1/8), 13/40) ''F.SilkS'' (15/100),
      FpLine (- (1/8), 13/40) (- (1/8), - (13/40)) ''F.SilkS'' (15/100)]
   \<and> silk (entry (95/100, 1) (160/100) (160/100, 80/100) (35/100) (SilkStr ''internal'')) =
       internal_silk (entry (95/100, 1) (160/100) (160/100, 80/100) (35/100) (SilkStr ''internal''))
   \<and> silk (entry (95/100, 1) (160/100) (160/100, 80/100) (35/100) (SilkStr ''external'')) = []
   \<and> silk (entry (95/100, 1) (160/100) (160/100, 80/100) (35/100) (SilkStr ''pin1'')) = []
   \<and> silk (entry (62/100, 62/100) (90/100) (1, 50/100) (30/100) SilkNone) = []
   \<and> silk (entry (95/100, 1) (160/100) (160/100, 80/100) (35/100) (SilkStr ''dots'')) = []"
  using
    silk_dispatch [of "entry (95/100, 1) (160/100) (160/100, 80/100) (35/100) SilkAbsent"]
    silk_dispatch [of "entry (95/100, 1) (160/100) (160/100, 80/100) (35/100) (SilkStr ''internal'')"]
    silk_dispatch [of "entry (95/100, 1) (160/100) (160/100, 80/100) (35/100) (SilkStr ''external'')"]
    silk_dispatch [of "entry (95/100, 1) (160/100) (160/100, 80/100) (35/100) (SilkStr ''pin1'')"]
    silk_dispatch [of "entry (62/100, 62/100) (90/100) (1, 50/100) (30/100) SilkNone"]
    silk_dispatch [of "entry (95/100, 1) (160/100) (160/100, 80/100) (35/100) (SilkStr ''dots'')" "''dots''"]
  by (simp add: entry_def Let_def silk_pad_igap_def silk_width_def)

text \<open>
  Claim C5, as stated, calls the triangle right-pointing. For the registry entry
  \<^verbatim>\<open>0603-LED\<close> the three segments form a closed triangle with the apex at
  \<open>(-0.125, 0)\<close> and the base at \<open>x = 0.125\<close>: the apex is left of the base, and the
  triangle does not point right.
\<close>

theorem triangle_points_left_counterexample:
  "map_of config ''0603-LED'' =
     Some (entry (95/100, 1) (160/100) (160/100, 80/100) (25/100) (SilkStr ''triangle''))
   \<and> triangle_of (silk (entry (95/100, 1) (160/100) (160/100, 80/100) (25/100)
         (SilkStr ''triangle''))) =
       Some ((- (1/8), 0), (1/8, - (13/40)), (1/8, 13/40))
   \<and> \<not> points_right (silk (entry (95/100, 1) (160/100) (160/100, 80/100) (25/100)
         (SilkStr ''triangle'')))"
  by (simp add: config_def entry_def silk_def conf_get_silk_def triangle_silk_def
      fp_line_def points_right_def silk_pad_igap_def silk_width_def Let_def)

lemma triangle_silk_lines:
  "triangle_silk c =
     (let w = pitch c - fst (pad_shape c) - 2 * silk_pad_igap;
          h = snd (chip_shape c) - silk_width
      in [FpLine (- w / 2, 0) (w / 2, - h / 2) ''F.SilkS'' silk_width,
          FpLine (- w / 2, 0) (w / 2, h / 2) ''F.SilkS'' silk_width,
          FpLine (w / 2, - h / 2) (w / 2, h / 2) ''F.SilkS'' silk_width])"
  by (simp add: triangle_silk_def fp_line_def Let_def)

text \<open>
  Claim C5, amended. For a package whose \<^verbatim>\<open>silk\<close> key is \<^verbatim>\<open>"triangle"\<close>, the
  silkscreen is exactly three segments forming a closed triangle whose apex is the
  centre of the left edge, \<open>(- w / 2, 0)\<close>, and whose base is the right edge, from
  \<open>(w / 2, - h / 2)\<close> to \<open>(w / 2, h / 2)\<close>; so for a positive \<open>w\<close> it points left,
  to pad 1. Here \<open>w\<close> = pitch - pad width - twice the clearance and \<open>h\<close> = chip
  height - one stroke width are the dimensions of the rectangle of the internal
  variant.
\<close>

theorem triangle_silk_shape:
  assumes "silk_entry c = SilkStr ''triangle''"
  shows "(let w = pitch c - fst (pad_shape c) - 2 * silk_pad_igap;
              h = snd (chip_shape c) - silk_width
          in silk c = [FpLine (- w / 2, 0) (w / 2, - h / 2) ''F.SilkS'' silk_width,
                       FpLine (- w / 2, 0) (w / 2, h / 2) ''F.SilkS'' silk_width,
                       FpLine (w / 2, - h / 2) (w / 2, h / 2) ''F.SilkS'' silk_width]
           \<and> triangle_of (silk c) = Some ((- w / 2, 0), (w / 2, - h / 2), (w / 2, h / 2))
           \<and> internal_silk c =
               snd (snd (snd (snd (draw_square w h (0, 0) ''F.SilkS'' silk_width))))
           \<and> (0 < w \<longrightarrow> points_left (silk c)))"
proof -
  define w where "w = pitch c - fst (pad_shape c) - 2 * silk_pad_igap"
  define h where "h = snd (chip_shape c) - silk_width"
  have s0: "silk c = triangle_silk c"
    using assms by (simp add: silk_def conf_get_silk_def)
  have s: "silk c = [FpLine (- w / 2, 0) (w / 2, - h / 2) ''F.SilkS'' silk_width,
                     FpLine (- w / 2, 0) (w / 2, h / 2) ''F.SilkS'' silk_width,
                     FpLine (w / 2, - h / 2) (w / 2, h / 2) ''F.SilkS'' silk_width]"
    unfolding s0 triangle_silk_lines Let_def w_def h_def by (rule refl)
  have t: "triangle_of (silk c) = Some ((- w / 2, 0), (w / 2, - h / 2), (w / 2, h / 2))"
    by (simp add: s)
  have i: "internal_silk c =
      snd (snd (snd (snd (draw_square w h (0, 0) ''F.SilkS'' silk_width))))"
    unfolding internal_silk_def Let_def w_def h_def by (simp split: prod.split)
  have l: "0 < w \<longrightarrow> points_left (silk c)"
    by (simp add: points_left_def t)
  show ?thesis
    unfolding Let_def w_def [symmetric] h_def [symmetric]
    using s t i l by blast
qed

theorem triangle_silk_shape_witness:
  "silk_entry (entry (95/100, 1) (160/100) (160/100, 80/100) (25/100) (SilkStr ''triangle''))
     = SilkStr ''triangle''
   \<and> silk (entry (95/100, 1) (160/100) (160/100, 80/100) (25/100) (SilkStr ''triangle'')) =
       [FpLine (- (1/8), 0) (1/8, - (13/40)) ''F.SilkS'' (15/100),
        FpLine (- (1/8), 0) (1/8, 13/40) ''F.SilkS'' (15/100),
        FpLine (1/8, - (13/40)) (1/8, 13/40) ''F.SilkS'' (15/100)]
   \<and> points_left (silk (entry (95/100, 1) (160/100) (160/100, 80/100) (25/100)
        (SilkStr ''triangle'')))"
  using triangle_silk_shape
    [of "entry (95/100, 1) (160/100) (160/100, 80/100) (25/100) (SilkStr ''triangle'')"]
  by (simp add: entry_def Let_def silk_pad_igap_def silk_width_def points_left_def)

lemma fab_lines:
  "fab c =
     (let w = fst (chip_shape c); h = snd (chip_shape c); t = terminal c
      in [FpLine (- w / 2, - h / 2) (w / 2, - h / 2) ''F.Fab'' fab_width,
          FpLine (w / 2, - h / 2) (w / 2, h / 2) ''F.Fab'' fab_width,
          FpLine (w / 2, h / 2) (- w / 2, h / 2) ''F.Fab'' fab_width,
          FpLine (- w / 2, h / 2) (- w / 2, - h / 2) ''F.Fab'' fab_width,
          FpLine (- w / 2 + t, - h / 2) (- w / 2 + t, h / 2) ''F.Fab'' fab_width,
          FpLine (w / 2 - t, - h / 2) (w / 2 - t, h / 2) ''F.Fab'' fab_width])"
  by (simp add: fab_def draw_square_def fp_line_def Let_def split: prod.split)

text \<open>
  Claim C6. The fabrication drawing of every package is the rectangle of
  \<open>chip_shape\<close> centred at the origin, followed by two vertical marks, one the terminal
  width inside the left edge and one the terminal width inside the right edge. For
  the registry entry \<^verbatim>\<open>0402\<close> the pads are centred at \<open>x = \<plusminus>0.45\<close>, the rectangle
  spans \<open>\<plusminus>0.50\<close> in X and \<open>\<plusminus>0.25\<close> in Y, the marks are at \<open>x = \<plusminus>0.20\<close>, and the
  silkscreen is empty. In every entry of the registry the chip is wider than high, so
  the left and right edges are its short edges.
\<close>

theorem fab_outline:
  "(let w = fst (chip_shape c); h = snd (chip_shape c); t = terminal c
    in fab c =
         [FpLine (- w / 2, - h / 2) (w / 2, - h / 2) ''F.Fab'' fab_width,
          FpLine (w / 2, - h / 2) (w / 2, h / 2) ''F.Fab'' fab_width,
          FpLine (w / 2, h / 2) (- w / 2, h / 2) ''F.Fab'' fab_width,
          FpLine (- w / 2, h / 2) (- w / 2, - h / 2) ''F.Fab'' fab_width,
          FpLine (- w / 2 + t, - h / 2) (- w / 2 + t, h / 2) ''F.Fab'' fab_width,
          FpLine (w / 2 - t, - h / 2) (w / 2 - t, h / 2) ''F.Fab'' fab_width])
   \<and> (let e = entry (62/100, 62/100) (90/100) (1, 50/100) (30/100) SilkNone
       in map_of config ''0402'' = Some e
        \<and> pads e =
            [Pad 1 ''smd'' ''rect'' (- (45/100), 0) (62/100, 62/100)
               [''F.Cu'', ''F.Mask'', ''F.Paste''],
             Pad 2 ''smd'' ''rect'' (45/100, 0) (62/100, 62/100)
               [''F.Cu'', ''F.Mask'', ''F.Paste'']]
        \<and> fab e =
            [FpLine (- (50/100), - (25/100)) (50/100, - (25/100)) ''F.Fab'' fab_width,
             FpLine (50/100, - (25/100)) (50/100, 25/100) ''F.Fab'' fab_width,
             FpLine (50/100, 25/100) (- (50/100), 25/100) ''F.Fab'' fab_width,
             FpLine (- (50/100), 25/100) (- (50/100), - (25/100)) ''F.Fab'' fab_width,
             FpLine (- (20/100), - (25/100)) (- (20/100), 25/100) ''F.Fab'' fab_width,
             FpLine (20/100, - (25/100)) (20/100, 25/100) ''F.Fab'' fab_width]
        \<and> silk e = [])
   \<and> list_all (\<lambda>item. snd (chip_shape (snd item)) < fst (chip_shape (snd item))) config"
proof -
  have reg: "list_all (\<lambda>item. snd (chip_shape (snd item)) < fst (chip_shape (snd item))) config"
    by (simp add: config_def entry_def)
  have ex: "(let e = entry (62/100, 62/100) (90/100) (1, 50/100) (30/100) SilkNone
       in map_of config ''0402'' = Some e
        \<and> pads e =
            [Pad 1 ''smd'' ''rect'' (- (45/100), 0) (62/100, 62/100)
               [''F.Cu'', ''F.Mask'', ''F.Paste''],
             Pad 2 ''smd'' ''rect'' (45/100, 0) (62/100, 62/100)
               [''F.Cu'', ''F.Mask'', ''F.Paste'']]
        \<and> fab e =
            [FpLine (- (50/100), - (25/100)) (50/100, - (25/100)) ''F.Fab'' fab_width,
             FpLine (50/100, - (25/100)) (50/100, 25/100) ''F.Fab'' fab_width,
             FpLine (50/100, 25/100) (- (50/100), 25/100) ''F.Fab'' fab_width,
             FpLine (- (50/100), 25/100) (- (50/100), - (25/100)) ''F.Fab'' fab_width,
             FpLine (- (20/100), - (25/100)) (- (20/100), 25/100) ''F.Fab'' fab_width,
             FpLine (20/100, - (25/100)) (20/100, 25/100) ''F.Fab'' fab_width]
        \<and> silk e = [])"
    by (simp add: Let_def fab_lines config_def entry_def pads_def pad_def silk_def
        conf_get_silk_def)
  show ?thesis
    using reg ex fab_lines [of c] by simp
qed

subsection \<open>The document\<close>

lemma refs_named: "name_entry c = Some n \<Longrightarrow> refs c = Inr (labels n c)"
  by (simp add: refs_def conf_name_def fp_text_def Let_def labels_def)

lemma footprint_sexp_named:
  "name_entry c = Some n \<Longrightarrow>
   footprint_sexp now c =
     Inr ([Str ''module'', Str n, Lst [Str ''layer'', Str ''F.Cu''],
           Lst [Str ''tedit'', Str (format_X (py_int now))]]
          @ map Prim (labels n c) @ map Prim (fab c) @ map Prim (silk c)
          @ map Prim (ctyd c) @ map Prim (pads c))"
  by (simp add: footprint_sexp_def conf_name_def refs_named)

text \<open>
  Claim C8. For a package with a name, the document that \<^verbatim>\<open>footprint\<close> hands to
  the serialiser is the header (\<^verbatim>\<open>module\<close>, the name, the copper layer tag, the
  \<^verbatim>\<open>tedit\<close> timestamp) followed by the outputs of \<^verbatim>\<open>refs\<close>, \<^verbatim>\<open>fab\<close>,
  \<^verbatim>\<open>silk\<close>, \<^verbatim>\<open>ctyd\<close> and \<^verbatim>\<open>pads\<close>, in this order, for every package.
\<close>

theorem footprint_order:
  assumes "name_entry c = Some n"
  shows "\<exists>r. refs c = Inr r
     \<and> footprint G now c =
         Inr (G ([Str ''module'', Str n, Lst [Str ''layer'', Str ''F.Cu''],
                  Lst [Str ''tedit'', Str (format_X (py_int now))]]
                 @ map Prim r @ map Prim (fab c) @ map Prim (silk c)
                 @ map Prim (ctyd c) @ map Prim (pads c)))"
  using assms by (simp add: footprint_def footprint_sexp_named refs_named)

lemma ctyd_lines:
  "ctyd c =
     (let W = fst (ctyd_size c); H = snd (ctyd_size c)
      in [FpLine (- W / 2, - H / 2) (W / 2, - H / 2) ''F.CrtYd'' ctyd_width,
          FpLine (W / 2, - H / 2) (W / 2, H / 2) ''F.CrtYd'' ctyd_width,
          FpLine (W / 2, H / 2) (- W / 2, H / 2) ''F.CrtYd'' ctyd_width,
          FpLine (- W / 2, H / 2) (- W / 2, - H / 2) ''F.CrtYd'' ctyd_width])"
  by (simp add: ctyd_def draw_square_def fp_line_def Let_def split: prod.split)

lemma hex_time: "format_X (py_int 1446000000) = ''56303580''"
  by (simp add: format_X_def py_int_def hex_nat.simps hex_digit_def)

theorem footprint_order_witness:
  "name_entry ((entry (62/100, 62/100) (90/100) (1, 50/100) (30/100) SilkNone)
       \<lparr>name_entry := Some ''0402''\<rparr>) = Some ''0402''
   \<and> footprint (\<lambda>d. d) 1446000000
        ((entry (62/100, 62/100) (90/100) (1, 50/100) (30/100) SilkNone)
           \<lparr>name_entry := Some ''0402''\<rparr>) =
      Inr [Str ''module'', Str ''0402'', Lst [Str ''layer'', Str ''F.Cu''],
           Lst [Str ''tedit'', Str ''56303580''],
           Prim (FpText ''reference'' ''REF**'' (- (171/100), 0, 90) ''F.Fab'' (1, 1) (15/100)),
           Prim (FpText ''value'' ''0402'' (171/100, 0, 90) ''F.Fab'' (1, 1) (15/100)),
           Prim (FpLine (- (1/2), - (1/4)) (1/2, - (1/4)) ''F.Fab'' (1/100)),
           Prim (FpLine (1/2, - (1/4)) (1/2, 1/4) ''F.Fab'' (1/100)),
           Prim (FpLine (1/2, 1/4) (- (1/2), 1/4) ''F.Fab'' (1/100)),
           Prim (FpLine (- (1/2), 1/4) (- (1/2), - (1/4)) ''F.Fab'' (1/100)),
           Prim (FpLine (- (1/5), - (1/4)) (- (1/5), 1/4) ''F.Fab'' (1/100)),
           Prim (FpLine (1/5, - (1/4)) (1/5, 1/4) ''F.Fab'' (1/100)),
           Prim (FpLine (- (21/20), - (3/5)) (21/20, - (3/5)) ''F.CrtYd'' (1/100)),
           Prim (FpLine (21/20, - (3/5)) (21/20, 3/5) ''F.CrtYd'' (1/100)),
           Prim (FpLine (21/20, 3/5) (- (21/20), 3/5) ''F.CrtYd'' (1/100)),
           Prim (FpLine (- (21/20), 3/5) (- (21/20), - (3/5)) ''F.CrtYd'' (1/100)),
           Prim (Pad 1 ''smd'' ''rect'' (- (9/20), 0) (62/100, 62/100)
                  [''F.Cu'', ''F.Mask'', ''F.Paste'']),
           Prim (Pad 2 ''smd'' ''rect'' (9/20, 0) (62/100, 62/100)
                  [''F.Cu'', ''F.Mask'', ''F.Paste''])]"
proof -
  let ?c = "(entry (62/100, 62/100) (90/100) (1, 50/100) (30/100) SilkNone)
       \<lparr>name_entry := Some ''0402''\<rparr>"
  have h: "name_entry ?c = Some ''0402''" by (simp add: entry_def)
  obtain r where r: "refs ?c = Inr r"
    and f: "footprint (\<lambda>d. d) 1446000000 ?c =
         Inr ([Str ''module'', Str ''0402'', Lst [Str ''layer'', Str ''F.Cu''],
                  Lst [Str ''tedit'', Str (format_X (py_int 1446000000))]]
                 @ map Prim r @ map Prim (fab ?c) @ map Prim (silk ?c)
                 @ map Prim (ctyd ?c) @ map Prim (pads ?c))"
    using footprint_order [OF h, of "\<lambda>d. d" 1446000000] by blast
  have r': "r = [FpText ''reference'' ''REF**'' (- (171/100), 0, 90) ''F.Fab'' (1, 1) (15/100),
                 FpText ''value'' ''0402'' (171/100, 0, 90) ''F.Fab'' (1, 1) (15/100)]"
    using r refs_named [OF h] by (simp add: labels_def entry_def Let_def ctyd_gap_def
        font_halfheight_def font_size_def font_thickness_def)
  have fb: "fab ?c =
      [FpLine (- (1/2), - (1/4)) (1/2, - (1/4)) ''F.Fab'' (1/100),
       FpLine (1/2, - (1/4)) (1/2, 1/4) ''F.Fab'' (1/100),
       FpLine (1/2, 1/4) (- (1/2), 1/4) ''F.Fab'' (1/100),
       FpLine (- (1/2), 1/4) (- (1/2), - (1/4)) ''F.Fab'' (1/100),
       FpLine (- (1/5), - (1/4)) (- (1/5), 1/4) ''F.Fab'' (1/100),
       FpLine (1/5, - (1/4)) (1/5, 1/4) ''F.Fab'' (1/100)]"
    by (simp add: fab_lines entry_def Let_def fab_width_def)
  have sk: "silk ?c = []"
    by (simp add: silk_def conf_get_silk_def entry_def)
  have sz: "ctyd_size ?c = (21/10, 6/5)"
    by (simp add: ctyd_size_def ctyd_raw_def entry_def Let_def ctyd_gap_def ctyd_grid_def
        ceiling_eq_iff)
  have cy: "ctyd ?c =
      [FpLine (- (21/20), - (3/5)) (21/20, - (3/5)) ''F.CrtYd'' (1/100),
       FpLine (21/20, - (3/5)) (21/20, 3/5) ''F.CrtYd'' (1/100),
       FpLine (21/20, 3/5) (- (21/20), 3/5) ''F.CrtYd'' (1/100),
       FpLine (- (21/20), 3/5) (- (21/20), - (3/5)) ''F.CrtYd'' (1/100)]"
    unfolding ctyd_lines Let_def sz by (simp add: ctyd_width_def)
  have pd: "pads ?c =
      [Pad 1 ''smd'' ''rect'' (- (9/20), 0) (62/100, 62/100) [''F.Cu'', ''F.Mask'', ''F.Paste''],
       Pad 2 ''smd'' ''rect'' (9/20, 0) (62/100, 62/100) [''F.Cu'', ''F.Mask'', ''F.Paste'']]"
    by (simp add: pads_def pad_def entry_def Let_def)
  show ?thesis
    using h f unfolding r' fb sk cy pd hex_time by simp
qed

subsection \<open>The writer\<close>

lemma without_tedit_prims: "without_tedit (map Prim ps) = Inr (map Prim ps)"
  by (induction ps) simp_all

lemma filter_tedit_prims: "filter (\<lambda>e. \<not> is_tedit e) (map Prim ps) = map Prim ps"
  by (induction ps) simp_all

lemma head_not_tedit_name: "n \<noteq> [] \<Longrightarrow> head_not_tedit (Str n) = Inr True"
  by (cases n) simp_all

lemma without_tedit_item_doc:
  "fst item \<noteq> [] \<Longrightarrow> without_tedit (item_doc now item) = Inr (stripped_doc item)"
  by (simp add: item_doc_def stripped_doc_def head_not_tedit_name without_tedit_prims
      del: map_append)

lemma filter_tedit_item_doc:
  "filter (\<lambda>e. \<not> is_tedit e) (item_doc now item) = stripped_doc item"
  by (simp add: item_doc_def stripped_doc_def filter_tedit_prims del: map_append)

lemma silk_parts_name_free:
  "internal_silk (c\<lparr>name_entry := x\<rparr>) = internal_silk c"
  "external_silk (c\<lparr>name_entry := x\<rparr>) = external_silk c"
  "triangle_silk (c\<lparr>name_entry := x\<rparr>) = triangle_silk c"
  "pin1_silk (c\<lparr>name_entry := x\<rparr>) = pin1_silk c"
  by (simp_all add: internal_silk_def external_silk_def triangle_silk_def pin1_silk_def)

lemma name_free:
  "labels n (c\<lparr>name_entry := x\<rparr>) = labels n c"
  "fab (c\<lparr>name_entry := x\<rparr>) = fab c"
  "silk (c\<lparr>name_entry := x\<rparr>) = silk c"
  "ctyd (c\<lparr>name_entry := x\<rparr>) = ctyd c"
  "pads (c\<lparr>name_entry := x\<rparr>) = pads c"
  by (simp_all add: labels_def fab_def silk_def conf_get_silk_def silk_parts_name_free
      ctyd_def ctyd_size_def ctyd_raw_def pads_def Let_def cong: if_cong)

lemma footprint_sexp_item:
  "footprint_sexp now ((snd item)\<lparr>name_entry := Some (fst item)\<rparr>) = Inr (item_doc now item)"
  by (simp add: footprint_sexp_named [of _ "fst item"] item_doc_def name_free)

lemma footprint_sexp_doc:
  "name_entry c = Some n \<Longrightarrow> footprint_sexp now c = Inr (item_doc now (n, c))"
  by (simp add: footprint_sexp_named [of _ n] item_doc_def)




lemma main_body_entry:
  "main_body G P pp now fs item = Inr (c, fs', w) \<Longrightarrow> c = named item"
  by (auto simp: main_body_def footprint_def footprint_sexp_item Let_def named_def
      split: option.splits sum.splits if_splits)





lemma step_absent:
  assumes "fs (item_path pp item) = None"
  shows "main_body G P pp now fs item =
           Inr (named item, fs(item_path pp item \<mapsto> G (item_doc now item)), True)"
  using assms
  by (simp add: main_body_def footprint_def footprint_sexp_item Let_def named_def item_path_def)


lemma join_plain:
  assumes "n \<noteq> []" "hd n \<noteq> CHR ''/''"
  shows "os_path_join pp (n @ ext) =
           (if pp = [] \<or> last pp = CHR ''/'' then pp else pp @ ''/'') @ n @ ext"
  using assms by (cases n) (simp_all add: os_path_join_def)

lemma item_path_inj:
  assumes "fst a \<noteq> []" "hd (fst a) \<noteq> CHR ''/''" "fst b \<noteq> []" "hd (fst b) \<noteq> CHR ''/''"
    and "item_path pp a = item_path pp b"
  shows "fst a = fst b"
  using assms(5) unfolding item_path_def join_plain [OF assms(1,2)] join_plain [OF assms(3,4)]
  by simp

lemma registry_ok_Cons:
  assumes "registry_ok (a # rest)"
  shows "registry_ok rest" and "fst a \<noteq> []" and "hd (fst a) \<noteq> CHR ''/''"
  using assms by (simp_all add: registry_ok_def)

lemma registry_ok_paths:
  assumes "registry_ok (a # rest)"
  shows "\<forall>b \<in> set rest. item_path pp b \<noteq> item_path pp a"
proof
  fix b assume b: "b \<in> set rest"
  note ok = registry_ok_Cons [OF assms]
  have nb: "fst b \<noteq> []" "hd (fst b) \<noteq> CHR ''/''"
    using ok(1) b by (simp_all add: registry_ok_def list_all_iff)
  have "fst a \<notin> set (map fst rest)"
    using assms by (simp add: registry_ok_def)
  moreover have "fst b \<in> set (map fst rest)"
    using b by simp
  ultimately have "fst b \<noteq> fst a" by metis
  then show "item_path pp b \<noteq> item_path pp a"
    using item_path_inj [OF nb ok(2,3)] by blast
qed

lemma run_entries:
  "main_loop G P pp clock fs items = Inr (r, fs', k) \<Longrightarrow> r = named_items items"
proof (induction items arbitrary: clock fs r fs' k)
  case Nil
  then show ?case by (simp add: named_items_def)
next
  case (Cons a rest)
  from Cons.prems obtain c fs1 w rest' k' where
    step: "main_body G P pp (clock 0) fs a = Inr (c, fs1, w)"
    and tail: "main_loop G P pp (\<lambda>i. clock (Suc i)) fs1 rest = Inr (rest', fs', k')"
    and r: "r = (fst a, c) # rest'"
    by (auto split: sum.splits)
  have "c = named a" using step by (rule main_body_entry)
  moreover have "rest' = named_items rest" using tail by (rule Cons.IH)
  ultimately show ?case using r by (simp add: named_items_def)
qed




lemma run_from_absent:
  "registry_ok items \<Longrightarrow> \<forall>item \<in> set items. fs (item_path pp item) = None \<Longrightarrow>
   \<exists>fs'. main_loop G P pp clock fs items = Inr (named_items items, fs', length items)"
proof (induction items arbitrary: clock fs)
  case Nil
  then show ?case by (simp add: named_items_def)
next
  case (Cons a rest)
  note ok = registry_ok_Cons [OF Cons.prems(1)] registry_ok_paths [OF Cons.prems(1), of pp]
  let ?fs1 = "fs(item_path pp a \<mapsto> G (item_doc (clock 0) a))"
  have step: "main_body G P pp (clock 0) fs a = Inr (named a, ?fs1, True)"
    using step_absent [of fs pp a] Cons.prems(2) by simp
  have "\<forall>item \<in> set rest. ?fs1 (item_path pp item) = None"
    using ok(4) Cons.prems(2) by simp
  from Cons.IH [OF ok(1) this] obtain fs' where
    tail: "main_loop G P pp (\<lambda>i. clock (Suc i)) ?fs1 rest =
             Inr (named_items rest, fs', length rest)"
    by blast
  show ?case by (simp add: step tail named_items_def)
qed







lemma registry_ok_config: "registry_ok config"
  by (simp add: registry_ok_def config_def)









subsection \<open>Determinism and the registry\<close>

lemma filter_is_tedit_prims: "filter is_tedit (map Prim ps) = []"
  by (induction ps) simp_all

lemma one_tedit: "length (filter is_tedit (item_doc now item)) = 1"
  by (simp add: item_doc_def filter_is_tedit_prims del: map_append)

text \<open>
  Claim C10. For a package with a name, the documents generated at any two times agree
  element by element once the \<^verbatim>\<open>tedit\<close> element, of which each has exactly one, is
  removed from each. For a name that is not empty this is also what the comprehension
  of the writer computes.
\<close>

theorem footprint_deterministic:
  assumes "name_entry c = Some n"
  shows "\<exists>d1 d2. footprint_sexp t1 c = Inr d1 \<and> footprint_sexp t2 c = Inr d2
     \<and> filter (\<lambda>e. \<not> is_tedit e) d1 = filter (\<lambda>e. \<not> is_tedit e) d2
     \<and> length (filter is_tedit d1) = 1 \<and> length (filter is_tedit d2) = 1
     \<and> (n \<noteq> [] \<longrightarrow> without_tedit d1 = Inr (filter (\<lambda>e. \<not> is_tedit e) d1)
                    \<and> without_tedit d2 = without_tedit d1)"
proof (intro exI conjI impI)
  show "footprint_sexp t1 c = Inr (item_doc t1 (n, c))"
    and "footprint_sexp t2 c = Inr (item_doc t2 (n, c))"
    using assms by (simp_all add: footprint_sexp_doc)
  show "filter (\<lambda>e. \<not> is_tedit e) (item_doc t1 (n, c)) =
        filter (\<lambda>e. \<not> is_tedit e) (item_doc t2 (n, c))"
    by (simp only: filter_tedit_item_doc)
  show "length (filter is_tedit (item_doc t1 (n, c))) = 1"
    and "length (filter is_tedit (item_doc t2 (n, c))) = 1"
    by (rule one_tedit)+
next
  assume n: "n \<noteq> []"
  then have ne: "fst (n, c) \<noteq> []" by simp
  show "without_tedit (item_doc t1 (n, c)) =
        Inr (filter (\<lambda>e. \<not> is_tedit e) (item_doc t1 (n, c)))"
    by (simp only: without_tedit_item_doc [OF ne] filter_tedit_item_doc)
  show "without_tedit (item_doc t2 (n, c)) = without_tedit (item_doc t1 (n, c))"
    by (simp only: without_tedit_item_doc [OF ne])
qed

lemma hex_time': "format_X (py_int 1446000060) = ''563035BC''"
  by (simp add: format_X_def py_int_def hex_nat.simps hex_digit_def)

theorem footprint_deterministic_witness:
  "name_entry ((entry (62/100, 62/100) (90/100) (1, 50/100) (30/100) SilkNone)
       \<lparr>name_entry := Some ''0402''\<rparr>) = Some ''0402''
   \<and> ''0402'' \<noteq> []
   \<and> (\<exists>d1 d2.
         footprint_sexp 1446000000
           ((entry (62/100, 62/100) (90/100) (1, 50/100) (30/100) SilkNone)
              \<lparr>name_entry := Some ''0402''\<rparr>) = Inr d1
       \<and> footprint_sexp 1446000060
           ((entry (62/100, 62/100) (90/100) (1, 50/100) (30/100) SilkNone)
              \<lparr>name_entry := Some ''0402''\<rparr>) = Inr d2
       \<and> d1 \<noteq> d2
       \<and> filter (\<lambda>e. \<not> is_tedit e) d1 = filter (\<lambda>e. \<not> is_tedit e) d2
       \<and> without_tedit d2 = without_tedit d1)"
proof -
  let ?c = "(entry (62/100, 62/100) (90/100) (1, 50/100) (30/100) SilkNone)
       \<lparr>name_entry := Some ''0402''\<rparr>"
  have h: "name_entry ?c = Some ''0402''" by (simp add: entry_def)
  have n: "''0402'' \<noteq> []" by simp
  obtain d1 d2 where d: "footprint_sexp 1446000000 ?c = Inr d1"
      "footprint_sexp 1446000060 ?c = Inr d2"
      "filter (\<lambda>e. \<not> is_tedit e) d1 = filter (\<lambda>e. \<not> is_tedit e) d2"
      "without_tedit d2 = without_tedit d1"
    using footprint_deterministic [OF h, of 1446000000 1446000060] n by blast
  have "d1 = item_doc 1446000000 (''0402'', ?c)" "d2 = item_doc 1446000060 (''0402'', ?c)"
    using d(1,2) unfolding footprint_sexp_doc [OF h] by simp_all
  then have "d1 \<noteq> d2"
    by (simp add: item_doc_def hex_time hex_time')
  then show ?thesis using h n d by blast
qed

text \<open>
  Claim C9, as stated, fails: a run of \<^verbatim>\<open>main\<close> into an empty directory leaves the
  registry entry \<^verbatim>\<open>0402\<close> with the field \<^verbatim>\<open>name\<close> added, which the literal
  table does not have.
\<close>

theorem registry_entry_named_counterexample:
  "\<exists>cfg fs k.
     main (\<lambda>d :: sexp list. d) Inr ''out.pretty'' (\<lambda>i. 1446000000) Map.empty = Inr (cfg, fs, k)
     \<and> map_of config ''0402'' =
         Some (entry (62/100, 62/100) (90/100) (1, 50/100) (30/100) SilkNone)
     \<and> name_entry (entry (62/100, 62/100) (90/100) (1, 50/100) (30/100) SilkNone) = None
     \<and> map_of cfg ''0402'' =
         Some ((entry (62/100, 62/100) (90/100) (1, 50/100) (30/100) SilkNone)
                 \<lparr>name_entry := Some ''0402''\<rparr>)
     \<and> map_of cfg ''0402'' \<noteq> map_of config ''0402''"
proof -
  obtain fs1 where run1:
    "main (\<lambda>d :: sexp list. d) Inr ''out.pretty'' (\<lambda>i. 1446000000) Map.empty =
       Inr (named_items config, fs1, 8)"
    using run_from_absent [OF registry_ok_config, of Map.empty "''out.pretty''"
        "\<lambda>d :: sexp list. d" Inr "\<lambda>i. 1446000000"]
    by (auto simp: main_def config_def)
  have a: "map_of config ''0402'' =
         Some (entry (62/100, 62/100) (90/100) (1, 50/100) (30/100) SilkNone)"
    by (simp add: config_def)
  have b: "name_entry (entry (62/100, 62/100) (90/100) (1, 50/100) (30/100) SilkNone) = None"
    by (simp add: entry_def)
  have c: "map_of (named_items config) ''0402'' =
         Some ((entry (62/100, 62/100) (90/100) (1, 50/100) (30/100) SilkNone)
                 \<lparr>name_entry := Some ''0402''\<rparr>)"
    by (simp add: named_items_def named_def config_def)
  have d: "map_of (named_items config) ''0402'' \<noteq> map_of config ''0402''"
    unfolding a c by (simp add: entry_def)
  show ?thesis using run1 a b c d by blast
qed

text \<open>
  Claim C9, amended. Generating the footprint of a package stores the package name in
  its registry entry under the key \<^verbatim>\<open>name\<close> and changes no other field: after the
  body of the loop the entry is the entry of the literal table with the name added,
  and after a run that ends without an error this holds for every entry of the
  registry.
\<close>

theorem registry_gains_name:
  "(main_body G P pp now fs item = Inr (c, fs', w) \<longrightarrow>
      c = (snd item)\<lparr>name_entry := Some (fst item)\<rparr>)
   \<and> (main G P pp clock fs = Inr (cfg', fs1, k) \<longrightarrow>
      cfg' = map (\<lambda>item. (fst item, (snd item)\<lparr>name_entry := Some (fst item)\<rparr>)) config)"
proof (intro conjI impI)
  assume "main_body G P pp now fs item = Inr (c, fs', w)"
  then show "c = (snd item)\<lparr>name_entry := Some (fst item)\<rparr>"
    using main_body_entry [of G P pp now fs item c fs' w] by (simp add: named_def)
next
  assume "main G P pp clock fs = Inr (cfg', fs1, k)"
  then show "cfg' = map (\<lambda>item. (fst item, (snd item)\<lparr>name_entry := Some (fst item)\<rparr>)) config"
    using run_entries [of G P pp clock fs config cfg' fs1 k]
    by (simp add: main_def named_items_def named_def)
qed

theorem registry_gains_name_witness:
  "\<exists>c fs' fs1.
     main_body (\<lambda>d :: sexp list. d) Inr ''out.pretty'' 1446000000 Map.empty (config ! 1) =
       Inr (c, fs', True)
     \<and> c = (entry (62/100, 62/100) (90/100) (1, 50/100) (30/100) SilkNone)
             \<lparr>name_entry := Some ''0402''\<rparr>
     \<and> main (\<lambda>d :: sexp list. d) Inr ''out.pretty'' (\<lambda>i. 1446000000) Map.empty =
         Inr (map (\<lambda>item. (fst item, (snd item)\<lparr>name_entry := Some (fst item)\<rparr>)) config,
              fs1, 8)"
proof -
  let ?G = "\<lambda>d :: sexp list. d"
  let ?P = "Inr :: sexp list \<Rightarrow> error + sexp list"
  obtain fs1 where run1:
    "main ?G ?P ''out.pretty'' (\<lambda>i. 1446000000) Map.empty = Inr (named_items config, fs1, 8)"
    using run_from_absent [OF registry_ok_config, of Map.empty "''out.pretty''" ?G ?P
        "\<lambda>i. 1446000000"]
    by (auto simp: main_def config_def)
  have step: "main_body ?G ?P ''out.pretty'' 1446000000 Map.empty (config ! 1) =
      Inr (named (config ! 1),
           Map.empty(item_path ''out.pretty'' (config ! 1) \<mapsto>
             ?G (item_doc 1446000000 (config ! 1))), True)"
    by (rule step_absent) simp
  note inst1 = registry_gains_name [of ?G ?P "''out.pretty''" 1446000000 Map.empty
      "config ! 1" "named (config ! 1)"
      "Map.empty(item_path ''out.pretty'' (config ! 1) \<mapsto> ?G (item_doc 1446000000 (config ! 1)))"
      True "\<lambda>i. 1446000000" "named_items config" fs1 8]
  have c: "named (config ! 1) = (snd (config ! 1))\<lparr>name_entry := Some (fst (config ! 1))\<rparr>"
    using inst1 step by blast
  have m: "named_items config =
      map (\<lambda>item. (fst item, (snd item)\<lparr>name_entry := Some (fst item)\<rparr>)) config"
    using inst1 run1 by blast
  have e: "(snd (config ! 1))\<lparr>name_entry := Some (fst (config ! 1))\<rparr> =
      (entry (62/100, 62/100) (90/100) (1, 50/100) (30/100) SilkNone)
             \<lparr>name_entry := Some ''0402''\<rparr>"
    by (simp add: config_def)
  show ?thesis
    using step run1 unfolding c e m by blast
qed

end
